theory Spec2Isabelle
  imports Main "HOL-Library.Multiset"
begin

section \<open>Python values, exceptions and effects\<close>

text \<open>
  The registry (\<open>src/metadata_manager.py\<close>) and the TVDB provider
  (\<open>src/metadata_sources/tvdb.py\<close>) are embedded as pure functions. An exception is a
  value of \<open>exn\<close> and a fallible call returns \<open>exn + 'a\<close> with \<open>Inl\<close> the raised
  exception. Only subclasses of Python's \<open>Exception\<close> are modelled (no cancellation, no
  interpreter exit). Non-ASCII string literals of the source are written with every
  code point beyond ASCII as its hexadecimal number between angle brackets.
\<close>

datatype exn =
    HTTPException nat string
  | ValueError string
  | JSONDecodeError string
  | HTTPStatusError nat string
  | TypeError string
  | KeyError string
  | AttributeError string
  | NotImplementedError string
  | OtherException string

text \<open>\<open>except ValueError\<close> also catches the subclasses of \<open>ValueError\<close>;
  \<open>json.JSONDecodeError\<close> is one.\<close>

fun isinstance_ValueError :: "exn \<Rightarrow> bool" where
  "isinstance_ValueError (ValueError _) = True"
| "isinstance_ValueError (JSONDecodeError _) = True"
| "isinstance_ValueError _ = False"

fun isinstance_HTTPStatusError :: "exn \<Rightarrow> bool" where
  "isinstance_HTTPStatusError (HTTPStatusError _ _) = True"
| "isinstance_HTTPStatusError _ = False"

text \<open>An alias returned by a provider is a string, or \<open>None\<close> (the source's comment on its
  final filter names both). \<open>truthy\<close> is Python's truth value of such an entry.\<close>

datatype alias_val = AStr string | ANone

fun truthy :: "alias_val \<Rightarrow> bool" where
  "truthy (AStr s) = (s \<noteq> [])"
| "truthy ANone = False"

text \<open>What an awaited provider coroutine can hand back to \<open>asyncio.gather\<close>: the manager
  tells the results apart with \<open>isinstance\<close> (\<open>set\<close>, \<open>str\<close>, \<open>Exception\<close>).\<close>

datatype pyval = VNone | VStr string | VSet "alias_val set" | VExc exn | VOther

datatype json = JNull | JBool bool | JNum int | JStr string
  | JArr "json list" | JObj "(string \<times> json) list"

type_synonym user = string
type_synonym request = string

text \<open>\<open>models.MetadataDetailsResponse\<close>, with the fields the TVDB provider fills.\<close>

record details_response =
  resp_id :: json
  resp_tvdbId :: json
  resp_title :: json
  resp_imageUrl :: json
  resp_details :: json
  resp_imdbId :: json

datatype operation = OpSearch | OpGetDetails | OpSearchAliases | OpCheckConnectivity
  | OpExecuteAction | OpClose

text \<open>One constructor per logging statement of the manager whose text depends on data.\<close>

datatype log_record =
    Warn_enabled_not_loaded string
  | Error_aux_subtask_failed exn
  | Error_check_connectivity string exn
  | Warn_no_config_keys string
  | Info_closing_all
  | Error_cleanup exn
  | Error_closing string exn
  | Info_all_closed

text \<open>The observable effects of one manager operation, in the order they happen:
  a call of a provider's operation (by the key of the provider in \<open>self.sources\<close>),
  a log record, a read of the configuration store.\<close>

datatype event = Call string operation | Log log_record | ConfigGet string

section \<open>Calling a method: binding the arguments\<close>

text \<open>
  A Python method is its parameter list (after \<open>self\<close>; each name with whether it has a
  default) and its body. A call with \<open>npos\<close> positional arguments and the keyword
  arguments \<open>kws\<close> raises \<open>TypeError\<close> before the body runs when there are too many
  positionals, a keyword that names no remaining parameter, or a parameter without default
  left unfilled. (No \<open>*args\<close> or \<open>**kwargs\<close>: no method of the source declares them.)
\<close>

record 'a pymethod =
  params :: "(string \<times> bool) list"
  impl :: 'a

definition bind_arguments :: "(string \<times> bool) list \<Rightarrow> nat \<Rightarrow> string list \<Rightarrow> exn option" where
  "bind_arguments ps npos kws =
     (if length ps < npos then Some (TypeError ''too many positional arguments'')
      else case filter (\<lambda>k. k \<notin> set (map fst (drop npos ps))) kws of
          k # _ \<Rightarrow> Some (TypeError (''got an unexpected keyword argument '' @ k))
        | [] \<Rightarrow>
          (case filter (\<lambda>(n, d). \<not> d \<and> n \<notin> set kws) (drop npos ps) of
              (n, _) # _ \<Rightarrow> Some (TypeError (''missing required argument '' @ n))
            | [] \<Rightarrow> None))"

section \<open>The provider contract and the manager's state\<close>

text \<open>
  A loaded provider instance, as the manager uses it: the outcome of each operation the
  manager calls. Providers are found by duck typing, so the manager knows no more of them
  than these operations. \<open>search\<close>, \<open>get_details\<close>, \<open>search_aliases\<close>,
  \<open>check_connectivity\<close> and \<open>close\<close> are taken to be coroutine functions accepting
  the manager's arguments; for \<open>execute_action\<close> the parameter list is part of the model,
  since the manager passes \<open>request\<close> by keyword.
\<close>

record provider =
  src_search :: "string \<Rightarrow> user \<Rightarrow> string option \<Rightarrow> exn + details_response list"
  src_get_details :: "string \<Rightarrow> user \<Rightarrow> string option \<Rightarrow> exn + details_response option"
  src_search_aliases :: "string \<Rightarrow> user \<Rightarrow> exn + pyval"
  src_check_connectivity :: "exn + pyval"
  src_execute_action :: "(string \<Rightarrow> json \<Rightarrow> user \<Rightarrow> request \<Rightarrow> exn + json) pymethod"
  src_close :: "exn + pyval"

text \<open>A persisted settings row. The manager reads the keys with \<open>.get(key, default)\<close>,
  so each may be absent; \<open>use_proxy\<close> is the key the TVDB client reads.\<close>

record source_setting =
  providerName :: string
  isAuxSearchEnabled :: "bool option"
  displayOrder :: "int option"
  useProxy :: "bool option"
  use_proxy :: "bool option"

text \<open>
  The manager. The dictionaries \<open>self.sources\<close> and \<open>self.source_settings\<close> are
  association lists in insertion order (a dictionary has no key twice).
  \<open>session_factory\<close> stands for \<open>self._session_factory\<close>: the outcome of opening a
  session and reading the settings table, an exception or the rows.
  \<open>config_manager\<close> is the configuration store behind \<open>self._config_manager.get\<close>.
\<close>

record manager =
  sources :: "(string \<times> provider) list"
  source_settings :: "(string \<times> source_setting) list"
  session_factory :: "exn + source_setting list"
  config_manager :: "string \<rightharpoonup> string"

text \<open>\<open>asyncio.gather(*tasks, return_exceptions=True)\<close>: every task is awaited, and a
  raised exception becomes the task's result.\<close>

definition gather :: "(exn + pyval) list \<Rightarrow> pyval list" where
  "gather tasks = map (\<lambda>t. case t of Inl e \<Rightarrow> VExc e | Inr v \<Rightarrow> v) tasks"

definition not_found_detail :: "string \<Rightarrow> string" where
  "not_found_detail provider =
     ''<672A><627E><5230><5143><6570><636E><6E90>: '' @ provider"

section \<open>Routed single-provider operations\<close>

definition search ::
  "manager \<Rightarrow> string \<Rightarrow> string \<Rightarrow> user \<Rightarrow> string option
     \<Rightarrow> (exn + details_response list) \<times> event list" where
  "search m provider keyword usr mediaType =
     (case map_of (sources m) provider of
        Some source_instance \<Rightarrow>
          (src_search source_instance keyword usr mediaType, [Call provider OpSearch])
      | None \<Rightarrow> (Inl (HTTPException 404 (not_found_detail provider)), []))"

definition get_details ::
  "manager \<Rightarrow> string \<Rightarrow> string \<Rightarrow> user \<Rightarrow> string option
     \<Rightarrow> (exn + details_response option) \<times> event list" where
  "get_details m provider item_id usr mediaType =
     (case map_of (sources m) provider of
        Some source_instance \<Rightarrow>
          (src_get_details source_instance item_id usr mediaType, [Call provider OpGetDetails])
      | None \<Rightarrow> (Inl (HTTPException 404 (not_found_detail provider)), []))"

text \<open>The manager calls
  \<open>source_instance.execute_action(action_name, payload, user, request=request)\<close>: three
  positional arguments and the keyword \<open>request\<close>.\<close>

definition execute_action ::
  "manager \<Rightarrow> string \<Rightarrow> string \<Rightarrow> json \<Rightarrow> user \<Rightarrow> request \<Rightarrow> (exn + json) \<times> event list" where
  "execute_action m provider action_name payload usr req =
     (case map_of (sources m) provider of
        Some source_instance \<Rightarrow>
          (case bind_arguments (params (src_execute_action source_instance)) 3 [''request''] of
             Some e \<Rightarrow> (Inl e, [Call provider OpExecuteAction])
           | None \<Rightarrow>
               (impl (src_execute_action source_instance) action_name payload usr req,
                [Call provider OpExecuteAction]))
      | None \<Rightarrow> (Inl (HTTPException 404 (not_found_detail provider)), []))"

section \<open>Provider configuration\<close>

definition config_keys_map :: "(string \<times> string list) list" where
  "config_keys_map =
     [(''tmdb'', [''tmdbApiKey'', ''tmdbApiBaseUrl'', ''tmdbImageBaseUrl'']),
      (''bangumi'', [''bangumiClientId'', ''bangumiClientSecret'']),
      (''douban'', [''doubanCookie'']),
      (''tvdb'', [''tvdbApiKey'']),
      (''imdb'', [])]"

text \<open>\<open>config_manager.get(key, default)\<close>.\<close>

definition config_get :: "(string \<rightharpoonup> string) \<Rightarrow> string \<Rightarrow> string \<Rightarrow> string" where
  "config_get cfg key dflt = (case cfg key of Some v \<Rightarrow> v | None \<Rightarrow> dflt)"

definition getProviderConfig ::
  "manager \<Rightarrow> string \<Rightarrow> (exn + (string \<times> string) list) \<times> event list" where
  "getProviderConfig m provider =
     (if provider \<notin> set (map fst (sources m))
      then (Inl (HTTPException 404 (not_found_detail provider)), [])
      else case map_of config_keys_map provider of
          None \<Rightarrow> (Inr [], [Log (Warn_no_config_keys provider)])
        | Some keys_to_fetch \<Rightarrow>
            (let config_values =
                   map (\<lambda>key. (key, config_get (config_manager m) key '''')) keys_to_fetch
             in (if provider \<in> set [''douban'', ''tvdb'']
                 then Inr [(''value'', case config_values of [] \<Rightarrow> '''' | (k, v) # _ \<Rightarrow> v)]
                 else Inr config_values,
                 map ConfigGet keys_to_fetch)))"

section \<open>Alias search over the enabled providers\<close>

text \<open>
  Modelled from the spec: \<open>crud.get_enabled_aux_metadata_sources\<close> is not among the
  sources; the spec gives it as "list of settings rows where isAuxSearchEnabled". It runs
  inside the session, so it fails when the session does.
\<close>

definition get_enabled_aux_metadata_sources ::
  "exn + source_setting list \<Rightarrow> exn + source_setting list" where
  "get_enabled_aux_metadata_sources session =
     (case session of
        Inl e \<Rightarrow> Inl e
      | Inr rows \<Rightarrow> Inr (filter (\<lambda>s. isAuxSearchEnabled s = Some True) rows))"

text \<open>The first loop: one task per enabled provider that is loaded, a warning for each
  that is not. A task is kept with the key of its provider.\<close>

fun alias_tasks ::
  "(string \<times> provider) list \<Rightarrow> string \<Rightarrow> user \<Rightarrow> source_setting list
     \<Rightarrow> (string \<times> (exn + pyval)) list \<times> event list" where
  "alias_tasks srcs keyword usr [] = ([], [])"
| "alias_tasks srcs keyword usr (source_setting # rest) =
     (let (tasks, warnings) = alias_tasks srcs keyword usr rest;
          provider = providerName source_setting
      in case map_of srcs provider of
           Some source_instance \<Rightarrow>
             ((provider, src_search_aliases source_instance keyword usr) # tasks, warnings)
         | None \<Rightarrow> (tasks, Log (Warn_enabled_not_loaded provider) # warnings))"

text \<open>The second loop: a result that is a set is merged, one that is an exception is
  logged, any other is passed over.\<close>

fun merge_aliases :: "pyval list \<Rightarrow> alias_val set \<Rightarrow> alias_val set \<times> event list" where
  "merge_aliases [] all_aliases = (all_aliases, [])"
| "merge_aliases (VSet res # rest) all_aliases = merge_aliases rest (all_aliases \<union> res)"
| "merge_aliases (VExc res # rest) all_aliases =
     (let (merged, errors) = merge_aliases rest all_aliases
      in (merged, Log (Error_aux_subtask_failed res) # errors))"
| "merge_aliases (_ # rest) all_aliases = merge_aliases rest all_aliases"

definition search_aliases_from_enabled_sources ::
  "manager \<Rightarrow> string \<Rightarrow> user \<Rightarrow> (exn + alias_val set) \<times> event list" where
  "search_aliases_from_enabled_sources m keyword usr =
     (case get_enabled_aux_metadata_sources (session_factory m) of
        Inl e \<Rightarrow> (Inl e, [])
      | Inr enabled_sources_settings \<Rightarrow>
          (let (tasks, warnings) = alias_tasks (sources m) keyword usr enabled_sources_settings
           in if tasks = [] then (Inr {}, warnings)
              else
                (let results = gather (map snd tasks);
                     (all_aliases, errors) = merge_aliases results {}
                 in (Inr (Set.filter truthy all_aliases),
                     warnings @ map (\<lambda>t. Call (fst t) OpSearchAliases) tasks @ errors))))"

section \<open>Status of all sources\<close>

record status_row =
  row_providerName :: string
  row_isAuxSearchEnabled :: bool
  row_displayOrder :: int
  row_status :: string
  row_useProxy :: bool

definition check_failed :: string where
  "check_failed = ''<68C0><67E5><5931><8D25>''"

definition option_get :: "'a option \<Rightarrow> 'a \<Rightarrow> 'a" where
  "option_get v dflt = (case v of Some x \<Rightarrow> x | None \<Rightarrow> dflt)"

text \<open>The body of the loop over \<open>self.source_settings.items()\<close>: the row of one provider
  and what it logs.\<close>

definition status_entry ::
  "(string \<rightharpoonup> pyval) \<Rightarrow> string \<times> source_setting \<Rightarrow> status_row \<times> event list" where
  "status_entry status_map entry =
     (let provider_name = fst entry;
          setting = snd entry;
          status_result = status_map provider_name;
          status_text = (case status_result of Some (VStr s) \<Rightarrow> s | _ \<Rightarrow> check_failed);
          errors = (case status_result of
                      Some (VExc e) \<Rightarrow> [Log (Error_check_connectivity provider_name e)]
                    | _ \<Rightarrow> [])
      in (\<lparr>row_providerName = provider_name,
           row_isAuxSearchEnabled = option_get (isAuxSearchEnabled setting) False,
           row_displayOrder = option_get (displayOrder setting) 99,
           row_status = status_text,
           row_useProxy = option_get (useProxy setting) False\<rparr>,
          errors))"

text \<open>\<open>sorted(xs, key=f)\<close> is stable, as \<open>sort_key\<close> is.\<close>

definition get_sources_with_status :: "manager \<Rightarrow> status_row list \<times> event list" where
  "get_sources_with_status m =
     (let loaded_providers = map fst (sources m);
          tasks = map (\<lambda>provider_name_instance. src_check_connectivity (snd provider_name_instance))
                    (sources m);
          connectivity_statuses = gather tasks;
          status_map = map_of (zip loaded_providers connectivity_statuses);
          entries = map (status_entry status_map) (source_settings m);
          full_status_list = map fst entries
      in (sort_key row_displayOrder full_status_list,
          map (\<lambda>p. Call p OpCheckConnectivity) loaded_providers @ concat (map snd entries)))"

section \<open>Closing all sources\<close>

text \<open>The loop over \<open>enumerate(results)\<close>; the name of the failing provider is read at
  the result's index in \<open>list(self.sources.keys())\<close>, which has the length of
  \<open>results\<close>.\<close>

fun close_errors :: "string list \<Rightarrow> (nat \<times> pyval) list \<Rightarrow> event list" where
  "close_errors keys [] = []"
| "close_errors keys ((i, VExc result) # rest) =
     Log (Error_cleanup result) # Log (Error_closing (keys ! i) result) # close_errors keys rest"
| "close_errors keys (_ # rest) = close_errors keys rest"

text \<open>\<open>close_all\<close> assigns to no attribute of the manager: the state after it is the
  state before. (\<open>load_and_sync_sources\<close> clears \<open>self.sources\<close> itself, after
  calling \<open>close_all\<close>.)\<close>

definition close_all :: "manager \<Rightarrow> manager \<times> event list" where
  "close_all m =
     (let tasks = map (\<lambda>source. src_close source) (map snd (sources m));
          results = gather tasks
      in (m,
          Log Info_closing_all # map (\<lambda>p. Call p OpClose) (map fst (sources m))
            @ close_errors (map fst (sources m)) (enumerate 0 results)
            @ [Log Info_all_closed]))"

section \<open>The TVDB provider\<close>

text \<open>Sequencing of fallible steps: the first exception ends the body of a \<open>try\<close>.\<close>

definition bindE :: "exn + 'a \<Rightarrow> ('a \<Rightarrow> exn + 'b) \<Rightarrow> exn + 'b" where
  "bindE m f = (case m of Inl e \<Rightarrow> Inl e | Inr x \<Rightarrow> f x)"

text \<open>The decimal digit \<open>d\<close>, for \<open>d\<close> below ten (it is called with nothing else).\<close>

definition digit_char :: "nat \<Rightarrow> char" where
  "digit_char d = ''0123456789'' ! d"

function show_nat :: "nat \<Rightarrow> string" where
  "show_nat n = (if n < 10 then [digit_char n] else show_nat (n div 10) @ [digit_char (n mod 10)])"
  by pat_completeness auto
termination
  by (relation "measure id") auto

declare show_nat.simps [simp del]

definition quoted :: "string \<Rightarrow> string" where
  "quoted s = CHR 0x27 # s @ [CHR 0x27]"

text \<open>\<open>str(e)\<close>: the message an exception carries. For the library's exceptions the text
  is an approximation of the library's wording.\<close>

fun exn_str :: "exn \<Rightarrow> string" where
  "exn_str (HTTPException c d) = show_nat c @ '': '' @ d"
| "exn_str (ValueError msg) = msg"
| "exn_str (JSONDecodeError msg) = msg"
| "exn_str (HTTPStatusError c url) = ''HTTP error '' @ show_nat c @ '' for url '' @ url"
| "exn_str (TypeError msg) = msg"
| "exn_str (KeyError k) = quoted k"
| "exn_str (AttributeError msg) = msg"
| "exn_str (NotImplementedError msg) = msg"
| "exn_str (OtherException msg) = msg"

text \<open>\<open>str.lower()\<close>, on ASCII letters.\<close>

definition lower :: "string \<Rightarrow> string" where
  "lower s = map (\<lambda>c. let n = (of_char c :: nat) in
                        if 65 \<le> n \<and> n \<le> 90 then char_of (n + 32) else c) s"

text \<open>An HTTP response as the provider reads it: the status, the outcome of
  \<open>response.json()\<close> (a body that is not JSON raises \<open>json.JSONDecodeError\<close>) and the
  URL of the request.\<close>

record http_response =
  status_code :: nat
  json_body :: "exn + json"
  request_url :: string

record http_client =
  base_url :: string
  authorization :: string
  timeout_seconds :: nat
  follow_redirects :: bool
  proxy :: "string option"

text \<open>
  What surrounds a TVDB provider instance: the configuration store, the outcome of the
  session's \<open>crud.get_all_metadata_source_settings\<close>, the outcome of a GET request of a
  client (an exception of the transport, or a response), the validation done by the
  constructor of \<open>models.MetadataDetailsResponse\<close> (\<open>None\<close>: accepted), and the
  outcome of the inherited \<open>close\<close>. The last two belong to modules that are not among
  the sources.
\<close>

record tvdb_env =
  tvdb_config :: "string \<rightharpoonup> string"
  tvdb_session :: "exn + source_setting list"
  http_get :: "http_client \<Rightarrow> string \<Rightarrow> (string \<times> string) list \<Rightarrow> exn + http_response"
  response_validation :: "details_response \<Rightarrow> exn option"
  base_close :: "exn + pyval"

definition provider_name :: string where
  "provider_name = ''tvdb''"

definition create_client :: "tvdb_env \<Rightarrow> exn + http_client" where
  "create_client env =
     (let api_key = config_get (tvdb_config env) ''tvdbApiKey'' ''''
      in if api_key = [] then Inl (ValueError ''TVDB API Key not configured.'')
         else
           (let proxy_url = config_get (tvdb_config env) ''proxy_url'' '''';
                proxy_enabled_globally =
                  (lower (config_get (tvdb_config env) ''proxy_enabled'' ''false'') = ''true'')
            in bindE (tvdb_session env) (\<lambda>metadata_settings.
                 let provider_setting =
                       find (\<lambda>s. providerName s = provider_name) metadata_settings;
                     use_proxy_for_this_provider =
                       (case provider_setting of
                          Some s \<Rightarrow> option_get (use_proxy s) False
                        | None \<Rightarrow> False);
                     proxy_to_use =
                       (if proxy_enabled_globally \<and> use_proxy_for_this_provider \<and> proxy_url \<noteq> []
                        then Some proxy_url else None)
                 in Inr \<lparr>base_url = ''https://api4.thetvdb.com/v4'',
                         authorization = ''Bearer '' @ api_key,
                         timeout_seconds = 20,
                         follow_redirects = True,
                         proxy = proxy_to_use\<rparr>)))"

text \<open>\<open>response.raise_for_status()\<close> of httpx raises \<open>HTTPStatusError\<close> unless the
  status is a success (2xx). The provider imports \<open>HTTPStatusError\<close> from \<open>.base\<close>,
  which is not among the sources; it is taken to be httpx's class.\<close>

definition raise_for_status :: "http_response \<Rightarrow> exn + unit" where
  "raise_for_status response =
     (if 200 \<le> status_code response \<and> status_code response < 300 then Inr ()
      else Inl (HTTPStatusError (status_code response) (request_url response)))"

subsection \<open>Reading a decoded JSON value\<close>

text \<open>\<open>obj.get(key, default)\<close>: only a dictionary has \<open>get\<close>.\<close>

definition json_get :: "json \<Rightarrow> string \<Rightarrow> json \<Rightarrow> exn + json" where
  "json_get obj key dflt =
     (case obj of
        JObj kvs \<Rightarrow> Inr (case map_of kvs key of Some v \<Rightarrow> v | None \<Rightarrow> dflt)
      | _ \<Rightarrow> Inl (AttributeError ''object has no attribute get''))"

text \<open>\<open>obj[key]\<close> with a string key.\<close>

definition json_getitem :: "json \<Rightarrow> string \<Rightarrow> exn + json" where
  "json_getitem obj key =
     (case obj of
        JObj kvs \<Rightarrow> (case map_of kvs key of Some v \<Rightarrow> Inr v | None \<Rightarrow> Inl (KeyError key))
      | _ \<Rightarrow> Inl (TypeError ''object is not subscriptable by a string''))"

text \<open>Iteration: over the elements of a list, the keys of a dictionary, the characters
  of a string; nothing else is iterable.\<close>

fun py_iter :: "json \<Rightarrow> exn + json list" where
  "py_iter (JArr xs) = Inr xs"
| "py_iter (JObj kvs) = Inr (map (\<lambda>kv. JStr (fst kv)) kvs)"
| "py_iter (JStr s) = Inr (map (\<lambda>c. JStr [c]) s)"
| "py_iter _ = Inl (TypeError ''object is not iterable'')"

fun json_truthy :: "json \<Rightarrow> bool" where
  "json_truthy JNull = False"
| "json_truthy (JBool b) = b"
| "json_truthy (JNum n) = (n \<noteq> 0)"
| "json_truthy (JStr s) = (s \<noteq> [])"
| "json_truthy (JArr xs) = (xs \<noteq> [])"
| "json_truthy (JObj kvs) = (kvs \<noteq> [])"

subsection \<open>Python's str and repr on a decoded JSON value\<close>

text \<open>
  \<open>repr\<close> of a string: between single quotes, or between double quotes when the string
  holds a single quote and no double quote; the backslash and the chosen quote are
  escaped, tab, newline and carriage return are written as a backslash before t, n
  and r, and any other control character as a two-digit hexadecimal escape.
  Characters beyond ASCII are copied. Numbers are integers here: a JSON number with a
  fraction is not modelled.
\<close>

definition hex_digit :: "nat \<Rightarrow> char" where
  "hex_digit d = ''0123456789abcdef'' ! d"

definition repr_char :: "char \<Rightarrow> char \<Rightarrow> string" where
  "repr_char quote c =
     (let n = (of_char c :: nat)
      in if c = quote \<or> c = CHR 0x5C then [CHR 0x5C, c]
         else if n = 9 then [CHR 0x5C, CHR ''t'']
         else if n = 10 then [CHR 0x5C, CHR ''n'']
         else if n = 13 then [CHR 0x5C, CHR ''r'']
         else if n < 32 \<or> n = 127
         then [CHR 0x5C, CHR ''x'', hex_digit (n div 16), hex_digit (n mod 16)]
         else [c])"

definition repr_str :: "string \<Rightarrow> string" where
  "repr_str s =
     (let quote = (if CHR 0x27 \<in> set s \<and> CHR 0x22 \<notin> set s then CHR 0x22 else CHR 0x27)
      in quote # concat (map (repr_char quote) s) @ [quote])"

definition show_int :: "int \<Rightarrow> string" where
  "show_int i = (if i < 0 then CHR ''-'' # show_nat (nat (- i)) else show_nat (nat i))"

text \<open>\<open>sep.join(xs)\<close>.\<close>

fun str_join :: "string \<Rightarrow> string list \<Rightarrow> string" where
  "str_join sep [] = []"
| "str_join sep [x] = x"
| "str_join sep (x # y # ys) = x @ sep @ str_join sep (y # ys)"

fun py_repr :: "json \<Rightarrow> string" where
  "py_repr JNull = ''None''"
| "py_repr (JBool b) = (if b then ''True'' else ''False'')"
| "py_repr (JNum n) = show_int n"
| "py_repr (JStr s) = repr_str s"
| "py_repr (JArr xs) = ''['' @ str_join '', '' (map py_repr xs) @ '']''"
| "py_repr (JObj kvs) =
     ''{'' @ str_join '', '' (map (\<lambda>kv. repr_str (fst kv) @ '': '' @ py_repr (snd kv)) kvs) @ ''}''"

text \<open>\<open>str(v)\<close>, also what an f-string writes for \<open>{v}\<close>: a string is itself, any
  other value its \<open>repr\<close>.\<close>

definition py_str :: "json \<Rightarrow> string" where
  "py_str v = (case v of JStr s \<Rightarrow> s | _ \<Rightarrow> py_repr v)"

definition MetadataDetailsResponse :: "tvdb_env \<Rightarrow> details_response \<Rightarrow> exn + details_response" where
  "MetadataDetailsResponse env response =
     (case response_validation env response of Some e \<Rightarrow> Inl e | None \<Rightarrow> Inr response)"

subsection \<open>search\<close>

text \<open>The loop over \<open>data\<close>: items whose type is not "series" are skipped.\<close>

fun search_items :: "tvdb_env \<Rightarrow> json list \<Rightarrow> exn + details_response list" where
  "search_items env [] = Inr []"
| "search_items env (item # rest) =
     bindE (json_get item ''type'' JNull) (\<lambda>item_type.
       if item_type \<noteq> JStr ''series'' then search_items env rest
       else
         bindE (json_getitem item ''tvdb_id'') (\<lambda>tvdb_id.
         bindE (json_get item ''name'' JNull) (\<lambda>name.
         bindE (json_get item ''image_url'' JNull) (\<lambda>image_url.
         bindE (json_get item ''year'' JNull) (\<lambda>year.
         bindE (MetadataDetailsResponse env
                  \<lparr>resp_id = tvdb_id, resp_tvdbId = tvdb_id, resp_title = name,
                   resp_imageUrl = image_url,
                   resp_details = JStr (''Year: '' @ py_str year),
                   resp_imdbId = JNull\<rparr>) (\<lambda>result.
         bindE (search_items env rest) (\<lambda>results. Inr (result # results))))))))"

text \<open>The body of the \<open>try\<close>.\<close>

definition search_try :: "tvdb_env \<Rightarrow> string \<Rightarrow> exn + details_response list" where
  "search_try env keyword =
     bindE (create_client env) (\<lambda>client.
     bindE (http_get env client ''/search'' [(''query'', keyword)]) (\<lambda>response.
     bindE (raise_for_status response) (\<lambda>_.
     bindE (json_body response) (\<lambda>body.
     bindE (json_get body ''data'' (JArr [])) (\<lambda>data.
     bindE (py_iter data) (\<lambda>items. search_items env items))))))"

definition upstream_error_detail :: "nat \<Rightarrow> string" where
  "upstream_error_detail code =
     ''TVDB<670D><52A1><8FD4><56DE><9519><8BEF>: '' @ show_nat code @
     (if code = 401
      then ''<FF0C><8BF7><68C0><67E5><60A8><7684>API Key<662F><5426><6B63><786E><3002>''
      else [])"

definition internal_error_detail :: string where
  "internal_error_detail =
     ''TVDB<641C><7D22><65F6><53D1><751F><5185><90E8><9519><8BEF><3002>''"

text \<open>The handlers, in the order of the source: \<open>ValueError\<close>, \<open>HTTPStatusError\<close>,
  \<open>Exception\<close>.\<close>

definition tvdb_search ::
  "tvdb_env \<Rightarrow> string \<Rightarrow> user \<Rightarrow> string option \<Rightarrow> exn + details_response list" where
  "tvdb_search env keyword usr mediaType =
     (case search_try env keyword of
        Inr results \<Rightarrow> Inr results
      | Inl e \<Rightarrow>
          if isinstance_ValueError e then Inl (HTTPException 412 (exn_str e))
          else
            (case e of
               HTTPStatusError code url \<Rightarrow> Inl (HTTPException 503 (upstream_error_detail code))
             | _ \<Rightarrow> Inl (HTTPException 500 internal_error_detail)))"

subsection \<open>get_details\<close>

text \<open>\<open>next((rid for rid in remote_ids if rid.get('sourceName') == 'IMDB'), None)\<close>:
  the entries are read in order until the first match.\<close>

fun find_imdb_entry :: "json list \<Rightarrow> exn + json option" where
  "find_imdb_entry [] = Inr None"
| "find_imdb_entry (rid # rest) =
     bindE (json_get rid ''sourceName'' JNull) (\<lambda>source_name.
       if source_name = JStr ''IMDB'' then Inr (Some rid) else find_imdb_entry rest)"

definition imdb_id_of :: "json \<Rightarrow> exn + json" where
  "imdb_id_of details =
     bindE (json_get details ''remoteIds'' JNull) (\<lambda>remote_ids.
       if json_truthy remote_ids
       then bindE (py_iter remote_ids) (\<lambda>rids.
            bindE (find_imdb_entry rids) (\<lambda>imdb_entry.
              case imdb_entry of
                Some entry \<Rightarrow> if json_truthy entry then json_get entry ''id'' JNull else Inr JNull
              | None \<Rightarrow> Inr JNull))
       else Inr JNull)"

text \<open>The body of the \<open>try\<close>; \<open>None\<close> is the early return at status 404.\<close>

definition get_details_try :: "tvdb_env \<Rightarrow> string \<Rightarrow> exn + details_response option" where
  "get_details_try env item_id =
     bindE (create_client env) (\<lambda>client.
     bindE (http_get env client (''/series/'' @ item_id @ ''/extended'') []) (\<lambda>response.
       if status_code response = 404 then Inr None
       else
         bindE (raise_for_status response) (\<lambda>_.
         bindE (json_body response) (\<lambda>body.
         bindE (json_get body ''data'' (JObj [])) (\<lambda>details.
         bindE (imdb_id_of details) (\<lambda>imdb_id.
         bindE (json_getitem details ''id'') (\<lambda>details_id.
         bindE (json_get details ''name'' JNull) (\<lambda>name.
         bindE (json_get details ''image'' JNull) (\<lambda>image.
         bindE (json_get details ''overview'' JNull) (\<lambda>overview.
         bindE (MetadataDetailsResponse env
                  \<lparr>resp_id = JStr (py_str details_id),
                   resp_tvdbId = JStr (py_str details_id),
                   resp_title = name, resp_imageUrl = image, resp_details = overview,
                   resp_imdbId = imdb_id\<rparr>) (\<lambda>result. Inr (Some result))))))))))))"

text \<open>The single handler \<open>except Exception\<close> logs and returns \<open>None\<close>.\<close>

definition tvdb_get_details ::
  "tvdb_env \<Rightarrow> string \<Rightarrow> user \<Rightarrow> string option \<Rightarrow> exn + details_response option" where
  "tvdb_get_details env item_id usr mediaType =
     (case get_details_try env item_id of
        Inr result \<Rightarrow> Inr result
      | Inl e \<Rightarrow> Inr None)"

subsection \<open>search_aliases, check_connectivity, execute_action\<close>

definition tvdb_search_aliases :: "tvdb_env \<Rightarrow> string \<Rightarrow> user \<Rightarrow> exn + pyval" where
  "tvdb_search_aliases env keyword usr = Inr (VSet {})"

definition tvdb_check_connectivity :: "tvdb_env \<Rightarrow> exn + pyval" where
  "tvdb_check_connectivity env =
     (case bindE (create_client env)
             (\<lambda>client. http_get env client ''/search'' [(''query'', ''test'')]) of
        Inr response \<Rightarrow>
          if status_code response = 200 then Inr (VStr ''<8FDE><63A5><6210><529F>'')
          else if status_code response = 401
          then Inr (VStr ''<8FDE><63A5><5931><8D25> (API Key<65E0><6548>)'')
          else Inr (VStr (''<8FDE><63A5><5931><8D25> (<72B6><6001><7801>: ''
                          @ show_nat (status_code response) @ '')''))
      | Inl e \<Rightarrow>
          if isinstance_ValueError e then Inr (VStr (''<672A><914D><7F6E>: '' @ exn_str e))
          else Inr (VStr (''<8FDE><63A5><5931><8D25>: '' @ exn_str e)))"

text \<open>\<open>async def execute_action(self, action_name: str, payload: Dict, user: models.User)\<close>:
  three parameters, none with a default, and no \<open>request\<close>. The body raises
  \<open>NotImplementedError\<close>.\<close>

definition tvdb_execute_action ::
  "(string \<Rightarrow> json \<Rightarrow> user \<Rightarrow> request \<Rightarrow> exn + json) pymethod" where
  "tvdb_execute_action =
     \<lparr>params = [(''action_name'', False), (''payload'', False), (''user'', False)],
      impl = (\<lambda>action_name payload usr req.
                Inl (NotImplementedError
                       (''<6E90> '' @ quoted provider_name @
                        '' <4E0D><652F><6301><4EFB><4F55><81EA><5B9A><4E49><64CD><4F5C><3002>'')))\<rparr>"

text \<open>A TVDB provider instance, as the manager holds it after loading.\<close>

definition TvdbMetadataSource :: "tvdb_env \<Rightarrow> provider" where
  "TvdbMetadataSource env =
     \<lparr>src_search = tvdb_search env,
      src_get_details = tvdb_get_details env,
      src_search_aliases = tvdb_search_aliases env,
      src_check_connectivity = tvdb_check_connectivity env,
      src_execute_action = tvdb_execute_action,
      src_close = base_close env\<rparr>"

section \<open>Example states\<close>

text \<open>A provider with fixed outcomes for \<open>search_aliases\<close>, \<open>check_connectivity\<close> and
  \<open>close\<close>, whose \<open>execute_action\<close> accepts the manager's call.\<close>

definition fixed_provider :: "exn + pyval \<Rightarrow> exn + pyval \<Rightarrow> exn + pyval \<Rightarrow> provider" where
  "fixed_provider aliases connectivity closing =
     \<lparr>src_search = (\<lambda>keyword usr mediaType. Inr []),
      src_get_details = (\<lambda>item_id usr mediaType. Inr None),
      src_search_aliases = (\<lambda>keyword usr. aliases),
      src_check_connectivity = connectivity,
      src_execute_action =
        \<lparr>params = [(''action_name'', False), (''payload'', False), (''user'', False),
                   (''request'', False)],
         impl = (\<lambda>action_name payload usr req. Inr JNull)\<rparr>,
      src_close = closing\<rparr>"

text \<open>A TVDB instance with an API key, whose upstream answers 200 with a body that is
  not JSON.\<close>

definition env_not_json :: tvdb_env where
  "env_not_json =
     \<lparr>tvdb_config = [''tvdbApiKey'' \<mapsto> ''secret''],
      tvdb_session = Inr [],
      http_get = (\<lambda>client path query.
                    Inr \<lparr>status_code = 200,
                         json_body = Inl (JSONDecodeError ''Expecting value: line 1 column 1 (char 0)''),
                         request_url = base_url client @ path\<rparr>),
      response_validation = (\<lambda>response. None),
      base_close = Inr VNone\<rparr>"

text \<open>A manager that has loaded the TVDB provider only.\<close>

definition tvdb_only :: manager where
  "tvdb_only =
     \<lparr>sources = [(''tvdb'', TvdbMetadataSource env_not_json)],
      source_settings =
        [(''tvdb'', \<lparr>providerName = ''tvdb'', isAuxSearchEnabled = Some False,
                     displayOrder = Some 1, useProxy = Some False, use_proxy = None\<rparr>)],
      session_factory =
        Inr [\<lparr>providerName = ''tvdb'', isAuxSearchEnabled = Some False,
              displayOrder = Some 1, useProxy = Some False, use_proxy = None\<rparr>],
      config_manager = [''tvdbApiKey'' \<mapsto> ''secret'']\<rparr>"

text \<open>A manager that has loaded nothing.\<close>

definition nothing_loaded :: manager where
  "nothing_loaded =
     \<lparr>sources = [], source_settings = [], session_factory = Inr [],
      config_manager = Map.empty\<rparr>"

text \<open>A manager that has loaded a provider the configuration-key table does not list.\<close>

definition custom_loaded :: manager where
  "custom_loaded =
     \<lparr>sources = [(''anidb'', fixed_provider (Inr (VSet {})) (Inr (VStr ''ok'')) (Inr VNone))],
      source_settings = [], session_factory = Inr [],
      config_manager = Map.empty\<rparr>"

text \<open>A manager whose settings cache holds A (loaded, reporting "ok", display order 20),
  B (loaded, its check raising, display order 5) and C (not loaded, no display order).\<close>

definition status_example :: manager where
  "status_example =
     \<lparr>sources =
        [(''A'', fixed_provider (Inr (VSet {})) (Inr (VStr ''ok'')) (Inr VNone)),
         (''B'', fixed_provider (Inr (VSet {})) (Inl (OtherException ''timeout'')) (Inr VNone))],
      source_settings =
        [(''A'', \<lparr>providerName = ''A'', isAuxSearchEnabled = Some True,
                  displayOrder = Some 20, useProxy = Some False, use_proxy = None\<rparr>),
         (''B'', \<lparr>providerName = ''B'', isAuxSearchEnabled = Some False,
                  displayOrder = Some 5, useProxy = Some True, use_proxy = None\<rparr>),
         (''C'', \<lparr>providerName = ''C'', isAuxSearchEnabled = None,
                  displayOrder = None, useProxy = None, use_proxy = None\<rparr>)],
      session_factory = Inr [],
      config_manager = Map.empty\<rparr>"

text \<open>A manager that has loaded A, whose \<open>close\<close> raises, and B, whose \<open>close\<close>
  returns.\<close>

definition close_example :: manager where
  "close_example =
     \<lparr>sources =
        [(''A'', fixed_provider (Inr (VSet {})) (Inr (VStr ''ok''))
                   (Inl (OtherException ''connection already closed''))),
         (''B'', fixed_provider (Inr (VSet {})) (Inr (VStr ''ok'')) (Inr VNone))],
      source_settings = [], session_factory = Inr [],
      config_manager = Map.empty\<rparr>"

text \<open>The settings hold A (enabled, display order 1) and B (disabled, display order 0);
  both are loaded; A's \<open>search_aliases\<close> returns the set of "foo", "Foo" and the empty
  string.\<close>

definition alias_example :: manager where
  "alias_example =
     \<lparr>sources =
        [(''A'', fixed_provider (Inr (VSet {AStr ''foo'', AStr ''Foo'', AStr ''''}))
                   (Inr (VStr ''ok'')) (Inr VNone)),
         (''B'', fixed_provider (Inr (VSet {AStr ''bar''})) (Inr (VStr ''ok'')) (Inr VNone))],
      source_settings =
        [(''A'', \<lparr>providerName = ''A'', isAuxSearchEnabled = Some True,
                  displayOrder = Some 1, useProxy = Some False, use_proxy = None\<rparr>),
         (''B'', \<lparr>providerName = ''B'', isAuxSearchEnabled = Some False,
                  displayOrder = Some 0, useProxy = Some False, use_proxy = None\<rparr>)],
      session_factory =
        Inr [\<lparr>providerName = ''A'', isAuxSearchEnabled = Some True,
              displayOrder = Some 1, useProxy = Some False, use_proxy = None\<rparr>,
             \<lparr>providerName = ''B'', isAuxSearchEnabled = Some False,
              displayOrder = Some 0, useProxy = Some False, use_proxy = None\<rparr>],
      config_manager = Map.empty\<rparr>"

text \<open>The same manager when the settings store cannot be read.\<close>

definition session_down :: manager where
  "session_down = alias_example\<lparr>session_factory := Inl (OtherException ''database is locked'')\<rparr>"

text \<open>A and B are enabled and loaded; A's \<open>search_aliases\<close> raises, B's returns a set.\<close>

definition partial_failure :: manager where
  "partial_failure =
     \<lparr>sources =
        [(''A'', fixed_provider (Inl (OtherException ''timeout'')) (Inr (VStr ''ok'')) (Inr VNone)),
         (''B'', fixed_provider (Inr (VSet {AStr ''bar''})) (Inr (VStr ''ok'')) (Inr VNone))],
      source_settings = [],
      session_factory =
        Inr [\<lparr>providerName = ''A'', isAuxSearchEnabled = Some True,
              displayOrder = Some 1, useProxy = Some False, use_proxy = None\<rparr>,
             \<lparr>providerName = ''B'', isAuxSearchEnabled = Some True,
              displayOrder = Some 0, useProxy = Some False, use_proxy = None\<rparr>],
      config_manager = Map.empty\<rparr>"

text \<open>TVDB instances around other upstreams: no API key configured; the upstream answers
  404; the transport fails; the upstream answers 401; the upstream answers 200 with one
  series and one film (for \<open>search\<close>) or with the record of a series (for
  \<open>get_details\<close>).\<close>

definition env_unconfigured :: tvdb_env where
  "env_unconfigured = env_not_json\<lparr>tvdb_config := Map.empty\<rparr>"

definition env_status :: "nat \<Rightarrow> tvdb_env" where
  "env_status code =
     env_not_json\<lparr>http_get := (\<lambda>client path query.
        Inr \<lparr>status_code = code, json_body = Inr (JObj []),
             request_url = base_url client @ path\<rparr>)\<rparr>"

definition env_offline :: tvdb_env where
  "env_offline =
     env_not_json\<lparr>http_get := (\<lambda>client path query. Inl (OtherException ''connection refused''))\<rparr>"

definition env_answering :: "json \<Rightarrow> tvdb_env" where
  "env_answering body =
     env_not_json\<lparr>http_get := (\<lambda>client path query.
        Inr \<lparr>status_code = 200, json_body = Inr body,
             request_url = base_url client @ path\<rparr>)\<rparr>"

definition search_body :: json where
  "search_body =
     JObj [(''data'',
            JArr [JObj [(''type'', JStr ''series''), (''tvdb_id'', JStr ''81189''),
                        (''name'', JStr ''Breaking Bad''), (''year'', JStr ''2008'')],
                  JObj [(''type'', JStr ''movie''), (''tvdb_id'', JStr ''12'')]])]"

definition details_body :: json where
  "details_body =
     JObj [(''data'',
            JObj [(''id'', JNum 81189), (''name'', JStr ''Breaking Bad''),
                  (''remoteIds'',
                   JArr [JObj [(''sourceName'', JStr ''TMDB''), (''id'', JStr ''1396'')],
                         JObj [(''sourceName'', JStr ''IMDB''), (''id'', JStr ''tt0903747'')]])])]"

section \<open>Properties of the routed operations\<close>

text \<open>
  Claim C2. For every provider name that is not a key of the loaded sources, each of
  \<open>search\<close>, \<open>get_details\<close> and \<open>execute_action\<close> raises the HTTP exception with
  status 404, and its list of effects is empty: no operation of any provider is called.
\<close>

theorem unknown_provider_not_found:
  assumes "provider \<notin> set (map fst (sources m))"
  shows "search m provider keyword usr mediaType
           = (Inl (HTTPException 404 (not_found_detail provider)), [])
       \<and> get_details m provider item_id usr mediaType
           = (Inl (HTTPException 404 (not_found_detail provider)), [])
       \<and> execute_action m provider action_name payload usr req
           = (Inl (HTTPException 404 (not_found_detail provider)), [])"
proof -
  from assms have "map_of (sources m) provider = None"
    by (simp add: map_of_eq_None_iff)
  then show ?thesis
    by (simp add: search_def get_details_def execute_action_def)
qed

theorem unknown_provider_not_found_witness:
  "''nonexistent'' \<notin> set (map fst (sources tvdb_only))
   \<and> search tvdb_only ''nonexistent'' ''x'' ''alice'' None
        = (Inl (HTTPException 404 (not_found_detail ''nonexistent'')), [])
   \<and> get_details tvdb_only ''nonexistent'' ''81189'' ''alice'' None
        = (Inl (HTTPException 404 (not_found_detail ''nonexistent'')), [])
   \<and> execute_action tvdb_only ''nonexistent'' ''refresh'' JNull ''alice'' ''req''
        = (Inl (HTTPException 404 (not_found_detail ''nonexistent'')), [])"
proof -
  have h: "''nonexistent'' \<notin> set (map fst (sources tvdb_only))"
    by (simp add: tvdb_only_def)
  show ?thesis
    using h unknown_provider_not_found [OF h] by simp
qed

section \<open>Properties of getProviderConfig\<close>

text \<open>
  Claim C9. For every provider name that is not a key of the loaded sources,
  \<open>getProviderConfig\<close> raises the HTTP exception with status 404, whatever the
  configuration-key table holds for the name, and reads nothing from the configuration
  store. The witness is at "tvdb", which the table lists.
\<close>

theorem getProviderConfig_unloaded_not_found:
  "provider \<notin> set (map fst (sources m)) \<Longrightarrow>
     getProviderConfig m provider = (Inl (HTTPException 404 (not_found_detail provider)), [])"
  by (simp add: getProviderConfig_def)

theorem getProviderConfig_unloaded_not_found_witness:
  "''tvdb'' \<notin> set (map fst (sources nothing_loaded))
   \<and> map_of config_keys_map ''tvdb'' = Some [''tvdbApiKey'']
   \<and> getProviderConfig nothing_loaded ''tvdb''
        = (Inl (HTTPException 404 (not_found_detail ''tvdb'')), [])"
proof -
  have h: "''tvdb'' \<notin> set (map fst (sources nothing_loaded))"
    by (simp add: nothing_loaded_def)
  have t: "map_of config_keys_map ''tvdb'' = Some [''tvdbApiKey'']"
    by (simp add: config_keys_map_def)
  show ?thesis
    using h t getProviderConfig_unloaded_not_found [OF h] by simp
qed

text \<open>
  Claim C8, as stated, fails: "anidb" is not in the configuration-key table, and with no
  provider loaded \<open>getProviderConfig\<close> raises the HTTP exception with status 404 for it.
\<close>

theorem getProviderConfig_unlisted_counterexample:
  "map_of config_keys_map ''anidb'' = None
   \<and> getProviderConfig nothing_loaded ''anidb''
        = (Inl (HTTPException 404 (not_found_detail ''anidb'')), [])"
  by (simp add: config_keys_map_def getProviderConfig_def nothing_loaded_def)

text \<open>
  Claim C8, amended. For every provider name that is a key of the loaded sources and is
  not in the configuration-key table, \<open>getProviderConfig\<close> returns the empty
  configuration and logs one warning; it does not raise.
\<close>

theorem getProviderConfig_loaded_unlisted_empty:
  "provider \<in> set (map fst (sources m)) \<Longrightarrow> map_of config_keys_map provider = None \<Longrightarrow>
     getProviderConfig m provider = (Inr [], [Log (Warn_no_config_keys provider)])"
  by (simp add: getProviderConfig_def)

theorem getProviderConfig_loaded_unlisted_empty_witness:
  "''anidb'' \<in> set (map fst (sources custom_loaded))
   \<and> map_of config_keys_map ''anidb'' = None
   \<and> getProviderConfig custom_loaded ''anidb'' = (Inr [], [Log (Warn_no_config_keys ''anidb'')])"
proof -
  have h: "''anidb'' \<in> set (map fst (sources custom_loaded))"
    by (simp add: custom_loaded_def)
  have t: "map_of config_keys_map ''anidb'' = None"
    by (simp add: config_keys_map_def)
  show ?thesis
    using h t getProviderConfig_loaded_unlisted_empty [OF h t] by simp
qed

section \<open>Properties of get_sources_with_status\<close>

lemma status_entry_name: "row_providerName (fst (status_entry status_map entry)) = fst entry"
  by (simp add: status_entry_def Let_def)

lemma status_entry_settings:
  "row_displayOrder (fst (status_entry status_map entry)) = option_get (displayOrder (snd entry)) 99"
  "row_isAuxSearchEnabled (fst (status_entry status_map entry))
     = option_get (isAuxSearchEnabled (snd entry)) False"
  "row_useProxy (fst (status_entry status_map entry)) = option_get (useProxy (snd entry)) False"
  by (simp_all add: status_entry_def Let_def)

lemma status_entry_unreported:
  "status_map (fst entry) = None \<Longrightarrow> row_status (fst (status_entry status_map entry)) = check_failed"
  by (simp add: status_entry_def Let_def)

lemma status_entry_reported:
  "status_map (fst entry) = Some v \<Longrightarrow>
     row_status (fst (status_entry status_map entry))
       = (case v of VStr s \<Rightarrow> s | _ \<Rightarrow> check_failed)"
  by (simp add: status_entry_def Let_def)

lemma length_gather: "length (gather tasks) = length tasks"
  by (simp add: gather_def)

lemma status_map_unloaded:
  assumes "p \<notin> set (map fst srcs)"
  shows "map_of (zip (map fst srcs) (gather (map f srcs))) p = None"
proof -
  have "p \<notin> fst ` set (zip (map fst srcs) (gather (map f srcs)))"
    using assms by (auto dest: set_zip_leftD)
  then show ?thesis
    by (simp add: map_of_eq_None_iff)
qed

lemma status_map_loaded:
  "map_of (zip (map fst srcs) (gather (map (\<lambda>s. check (snd s)) srcs))) p
     = map_option (\<lambda>inst. case check inst of Inl e \<Rightarrow> VExc e | Inr v \<Rightarrow> v) (map_of srcs p)"
  by (induction srcs) (auto simp: gather_def)

lemma rows_before_sorting:
  "fst (get_sources_with_status m)
     = sort_key row_displayOrder
         (map (\<lambda>entry. fst (status_entry
                 (map_of (zip (map fst (sources m))
                    (gather (map (\<lambda>s. src_check_connectivity (snd s)) (sources m)))))
                 entry))
              (source_settings m))"
  by (simp add: get_sources_with_status_def Let_def comp_def)

text \<open>
  Claim C3. For every manager, the rows of \<open>get_sources_with_status\<close> are sorted
  non-decreasing by \<open>displayOrder\<close>; their provider names are, with multiplicity, the
  keys of the settings cache (one row per key, none omitted); and the row of a provider
  that is in the settings but not loaded carries the default status text. The
  \<open>displayOrder\<close> the rows are sorted by is the persisted one: the rows are, with
  multiplicity, the entries of the settings cache, each with its key and its persisted
  \<open>isAuxSearchEnabled\<close>, \<open>displayOrder\<close> and \<open>useProxy\<close> (defaults \<open>False\<close>, 99,
  \<open>False\<close>), and rows of equal \<open>displayOrder\<close> keep the order of the cache. The row of a
  loaded provider carries the string its \<open>check_connectivity\<close> returned, and the default
  text when the check raised or returned no string.
\<close>

theorem get_sources_with_status_sorted_complete:
  "sorted (map row_displayOrder (fst (get_sources_with_status m)))
   \<and> mset (map row_providerName (fst (get_sources_with_status m)))
       = mset (map fst (source_settings m))
   \<and> (\<forall>r \<in> set (fst (get_sources_with_status m)).
         row_providerName r \<notin> set (map fst (sources m)) \<longrightarrow> row_status r = check_failed)
   \<and> mset (map (\<lambda>r. (row_providerName r, row_isAuxSearchEnabled r, row_displayOrder r,
                       row_useProxy r))
              (fst (get_sources_with_status m)))
       = mset (map (\<lambda>entry. (fst entry, option_get (isAuxSearchEnabled (snd entry)) False,
                             option_get (displayOrder (snd entry)) 99,
                             option_get (useProxy (snd entry)) False))
                 (source_settings m))
   \<and> (\<forall>k. map row_providerName
              (filter (\<lambda>r. row_displayOrder r = k) (fst (get_sources_with_status m)))
          = map fst (filter (\<lambda>entry. option_get (displayOrder (snd entry)) 99 = k)
                       (source_settings m)))
   \<and> (\<forall>r \<in> set (fst (get_sources_with_status m)). \<forall>inst.
         map_of (sources m) (row_providerName r) = Some inst
         \<longrightarrow> row_status r = (case src_check_connectivity inst of
                                Inr (VStr s) \<Rightarrow> s
                              | _ \<Rightarrow> check_failed))"
proof -
  define status_map where "status_map = map_of (zip (map fst (sources m))
       (gather (map (\<lambda>s. src_check_connectivity (snd s)) (sources m))))"
  define unsorted where
    "unsorted = map (\<lambda>entry. fst (status_entry status_map entry)) (source_settings m)"
  have rows: "fst (get_sources_with_status m) = sort_key row_displayOrder unsorted"
    unfolding unsorted_def status_map_def by (rule rows_before_sorting)
  have names: "map row_providerName unsorted = map fst (source_settings m)"
    unfolding unsorted_def by (simp add: status_entry_name comp_def)
  have fields: "map (\<lambda>r. (row_providerName r, row_isAuxSearchEnabled r, row_displayOrder r,
                       row_useProxy r)) unsorted
       = map (\<lambda>entry. (fst entry, option_get (isAuxSearchEnabled (snd entry)) False,
                             option_get (displayOrder (snd entry)) 99,
                             option_get (useProxy (snd entry)) False))
                 (source_settings m)"
    unfolding unsorted_def by (simp add: status_entry_name status_entry_settings comp_def)
  have c1: "sorted (map row_displayOrder (fst (get_sources_with_status m)))"
    by (simp add: rows)
  have "mset (map row_providerName (fst (get_sources_with_status m)))
          = image_mset row_providerName (mset unsorted)"
    by (simp add: rows)
  also have "\<dots> = mset (map row_providerName unsorted)"
    by simp
  finally have c2: "mset (map row_providerName (fst (get_sources_with_status m)))
       = mset (map fst (source_settings m))"
    by (simp only: names)
  have "mset (map (\<lambda>r. (row_providerName r, row_isAuxSearchEnabled r, row_displayOrder r,
                       row_useProxy r)) (fst (get_sources_with_status m)))
          = image_mset (\<lambda>r. (row_providerName r, row_isAuxSearchEnabled r, row_displayOrder r,
                       row_useProxy r)) (mset unsorted)"
    by (simp add: rows)
  also have "\<dots> = mset (map (\<lambda>r. (row_providerName r, row_isAuxSearchEnabled r,
                       row_displayOrder r, row_useProxy r)) unsorted)"
    by simp
  finally have c4: "mset (map (\<lambda>r. (row_providerName r, row_isAuxSearchEnabled r,
                       row_displayOrder r, row_useProxy r)) (fst (get_sources_with_status m)))
       = mset (map (\<lambda>entry. (fst entry, option_get (isAuxSearchEnabled (snd entry)) False,
                             option_get (displayOrder (snd entry)) 99,
                             option_get (useProxy (snd entry)) False))
                 (source_settings m))"
    by (simp only: fields)
  have c5: "map row_providerName
              (filter (\<lambda>r. row_displayOrder r = k) (fst (get_sources_with_status m)))
          = map fst (filter (\<lambda>entry. option_get (displayOrder (snd entry)) 99 = k)
                       (source_settings m))" for k
  proof -
    have "filter (\<lambda>r. row_displayOrder r = k) (fst (get_sources_with_status m))
            = filter (\<lambda>r. row_displayOrder r = k) unsorted"
      unfolding rows by (rule sort_key_stable)
    also have "\<dots> = map (\<lambda>entry. fst (status_entry status_map entry))
                        (filter (\<lambda>entry. option_get (displayOrder (snd entry)) 99 = k)
                           (source_settings m))"
      unfolding unsorted_def by (simp add: filter_map comp_def status_entry_settings)
    finally show ?thesis
      by (simp add: status_entry_name comp_def)
  qed
  have member: "\<exists>entry \<in> set (source_settings m). r = fst (status_entry status_map entry)"
    if "r \<in> set (fst (get_sources_with_status m))" for r
    using that unfolding rows unsorted_def by auto
  have c3: "row_status r = check_failed"
    if r: "r \<in> set (fst (get_sources_with_status m))"
      and unloaded: "row_providerName r \<notin> set (map fst (sources m))" for r
  proof -
    from member [OF r] obtain entry where r_def: "r = fst (status_entry status_map entry)"
      by blast
    from unloaded r_def have "fst entry \<notin> set (map fst (sources m))"
      by (simp add: status_entry_name)
    then have "status_map (fst entry) = None"
      unfolding status_map_def by (rule status_map_unloaded)
    then show ?thesis
      unfolding r_def by (rule status_entry_unreported)
  qed
  have c6: "row_status r = (case src_check_connectivity inst of
                                Inr (VStr s) \<Rightarrow> s
                              | _ \<Rightarrow> check_failed)"
    if r: "r \<in> set (fst (get_sources_with_status m))"
      and loaded: "map_of (sources m) (row_providerName r) = Some inst" for r inst
  proof -
    from member [OF r] obtain entry where r_def: "r = fst (status_entry status_map entry)"
      by blast
    from loaded r_def have "map_of (sources m) (fst entry) = Some inst"
      by (simp add: status_entry_name)
    then have "status_map (fst entry)
        = Some (case src_check_connectivity inst of Inl e \<Rightarrow> VExc e | Inr v \<Rightarrow> v)"
      unfolding status_map_def by (simp add: status_map_loaded)
    then have "row_status r
        = (case (case src_check_connectivity inst of Inl e \<Rightarrow> VExc e | Inr v \<Rightarrow> v) of
             VStr s \<Rightarrow> s | _ \<Rightarrow> check_failed)"
      unfolding r_def by (rule status_entry_reported)
    then show ?thesis
      by (simp split: sum.splits pyval.splits)
  qed
  from c1 c2 c3 c4 c5 c6 show ?thesis
    by blast
qed

theorem get_sources_with_status_sorted_complete_witness:
  "map (\<lambda>r. (row_providerName r, row_displayOrder r, row_status r))
       (fst (get_sources_with_status status_example))
     = [(''B'', 5, check_failed), (''A'', 20, ''ok''), (''C'', 99, check_failed)]
   \<and> map (\<lambda>entry. (fst entry, displayOrder (snd entry))) (source_settings status_example)
     = [(''A'', Some 20), (''B'', Some 5), (''C'', None)]
   \<and> sorted (map row_displayOrder (fst (get_sources_with_status status_example)))
   \<and> ''C'' \<notin> set (map fst (sources status_example))"
proof -
  have rows: "map (\<lambda>r. (row_providerName r, row_displayOrder r, row_status r))
       (fst (get_sources_with_status status_example))
     = [(''B'', 5, check_failed), (''A'', 20, ''ok''), (''C'', 99, check_failed)]"
    by (simp add: get_sources_with_status_def status_example_def Let_def gather_def
        status_entry_def option_get_def fixed_provider_def)
  have settings: "map (\<lambda>entry. (fst entry, displayOrder (snd entry)))
       (source_settings status_example)
     = [(''A'', Some 20), (''B'', Some 5), (''C'', None)]"
    by (simp add: status_example_def)
  have unloaded: "''C'' \<notin> set (map fst (sources status_example))"
    by (simp add: status_example_def)
  show ?thesis
    using rows settings unloaded get_sources_with_status_sorted_complete [of status_example]
    by simp
qed

section \<open>Properties of close_all\<close>

text \<open>
  Claim C4, as stated, fails in its last part: with A and B loaded, A's \<open>close\<close> raising
  and B's returning, the manager after \<open>close_all\<close> still holds A and B.
\<close>

theorem close_all_keeps_sources_counterexample:
  "map fst (sources close_example) = [''A'', ''B'']
   \<and> map (\<lambda>s. src_close (snd s)) (sources close_example)
       = [Inl (OtherException ''connection already closed''), Inr VNone]
   \<and> map fst (sources (fst (close_all close_example))) = [''A'', ''B'']
   \<and> sources (fst (close_all close_example)) \<noteq> []"
  by (simp add: close_all_def close_example_def fixed_provider_def Let_def)

text \<open>
  Claim C4, amended. When \<open>close_all\<close> runs with two loaded providers A and B, where
  A's \<open>close\<close> raises and B's returns, both \<open>close\<close> calls are made, A's failure is
  logged (twice, the second record naming A) and nothing is raised, and the manager is left
  as it was: it still holds both providers.
\<close>

theorem close_all_best_effort:
  assumes "sources m = [(a, pa), (b, pb)]"
    and "src_close pa = Inl e"
    and "src_close pb = Inr VNone"
  shows "snd (close_all m)
           = [Log Info_closing_all, Call a OpClose, Call b OpClose,
              Log (Error_cleanup e), Log (Error_closing a e), Log Info_all_closed]
       \<and> fst (close_all m) = m"
  using assms by (simp add: close_all_def gather_def Let_def)

theorem close_all_best_effort_witness:
  "sources close_example
     = [(''A'', fixed_provider (Inr (VSet {})) (Inr (VStr ''ok''))
                  (Inl (OtherException ''connection already closed''))),
        (''B'', fixed_provider (Inr (VSet {})) (Inr (VStr ''ok'')) (Inr VNone))]
   \<and> snd (close_all close_example)
       = [Log Info_closing_all, Call ''A'' OpClose, Call ''B'' OpClose,
          Log (Error_cleanup (OtherException ''connection already closed'')),
          Log (Error_closing ''A'' (OtherException ''connection already closed'')),
          Log Info_all_closed]
   \<and> fst (close_all close_example) = close_example"
proof -
  have s: "sources close_example
     = [(''A'', fixed_provider (Inr (VSet {})) (Inr (VStr ''ok''))
                  (Inl (OtherException ''connection already closed''))),
        (''B'', fixed_provider (Inr (VSet {})) (Inr (VStr ''ok'')) (Inr VNone))]"
    by (simp add: close_example_def)
  have a: "src_close (fixed_provider (Inr (VSet {})) (Inr (VStr ''ok''))
                  (Inl (OtherException ''connection already closed'')))
             = Inl (OtherException ''connection already closed'')"
    by (simp add: fixed_provider_def)
  have b: "src_close (fixed_provider (Inr (VSet {})) (Inr (VStr ''ok'')) (Inr VNone)) = Inr VNone"
    by (simp add: fixed_provider_def)
  show ?thesis
    using s close_all_best_effort [OF s a b] by simp
qed

section \<open>Properties of the alias search\<close>

lemma alias_tasks_outcomes:
  "t \<in> snd ` set (fst (alias_tasks srcs keyword usr settings))
     \<longleftrightarrow> (\<exists>s inst. s \<in> set settings \<and> map_of srcs (providerName s) = Some inst
                      \<and> t = src_search_aliases inst keyword usr)"
proof (induction settings)
  case Nil
  then show ?case by simp
next
  case (Cons s settings)
  obtain tasks warnings where rest: "alias_tasks srcs keyword usr settings = (tasks, warnings)"
    by (cases "alias_tasks srcs keyword usr settings")
  with Cons.IH have IH: "t \<in> snd ` set tasks
     \<longleftrightarrow> (\<exists>s inst. s \<in> set settings \<and> map_of srcs (providerName s) = Some inst
                      \<and> t = src_search_aliases inst keyword usr)"
    by simp
  show ?case
  proof (cases "map_of srcs (providerName s)")
    case None
    then have "fst (alias_tasks srcs keyword usr (s # settings)) = tasks"
      by (simp add: rest)
    with IH None show ?thesis by auto
  next
    case (Some inst)
    then have "fst (alias_tasks srcs keyword usr (s # settings))
                 = (providerName s, src_search_aliases inst keyword usr) # tasks"
      by (simp add: rest)
    with IH Some show ?thesis by auto
  qed
qed

lemma merge_aliases_union:
  "fst (merge_aliases results acc) = acc \<union> \<Union> {S. VSet S \<in> set results}"
proof (induction results acc rule: merge_aliases.induct)
  case (1 all_aliases)
  then show ?case by simp
next
  case (2 res rest all_aliases)
  then show ?case by auto
next
  case (3 res rest all_aliases)
  then show ?case by (auto simp: Let_def split: prod.splits)
qed auto

lemma gather_set_results:
  "VSet S \<in> set (gather tasks) \<longleftrightarrow> Inr (VSet S) \<in> set tasks"
  by (induction tasks) (auto simp: gather_def split: sum.splits)


lemma merged_successes:
  "fst (merge_aliases (gather (map snd (fst (alias_tasks srcs keyword usr settings)))) {})
     = \<Union> {S. \<exists>s \<in> set settings. \<exists>inst. map_of srcs (providerName s) = Some inst
                   \<and> src_search_aliases inst keyword usr = Inr (VSet S)}"
proof -
  have "VSet S \<in> set (gather (map snd (fst (alias_tasks srcs keyword usr settings))))
          \<longleftrightarrow> (\<exists>s \<in> set settings. \<exists>inst. map_of srcs (providerName s) = Some inst
                   \<and> src_search_aliases inst keyword usr = Inr (VSet S))" for S
  proof -
    have "VSet S \<in> set (gather (map snd (fst (alias_tasks srcs keyword usr settings))))
            \<longleftrightarrow> Inr (VSet S) \<in> snd ` set (fst (alias_tasks srcs keyword usr settings))"
      by (simp add: gather_set_results)
    also have "\<dots> \<longleftrightarrow> (\<exists>s inst. s \<in> set settings \<and> map_of srcs (providerName s) = Some inst
                      \<and> Inr (VSet S) = src_search_aliases inst keyword usr)"
      by (rule alias_tasks_outcomes)
    also have "\<dots> \<longleftrightarrow> (\<exists>s \<in> set settings. \<exists>inst. map_of srcs (providerName s) = Some inst
                   \<and> src_search_aliases inst keyword usr = Inr (VSet S))"
      by (rule iffI; metis)
    finally show ?thesis .
  qed
  then show ?thesis
    by (simp add: merge_aliases_union)
qed

text \<open>An exception of the read of the enabled settings is raised to the caller, before
  any provider is called.\<close>

lemma search_aliases_session_failure:
  "session_factory m = Inl e \<Longrightarrow> search_aliases_from_enabled_sources m keyword usr = (Inl e, [])"
  by (simp add: search_aliases_from_enabled_sources_def get_enabled_aux_metadata_sources_def)

text \<open>
  Claim C1, as stated, fails in two ways. With A enabled and loaded and returning the set of
  "foo", "Foo" and the empty string (B is disabled), the result is the set of "foo" and
  "Foo": it is not the union of the successful results, which holds the empty string. And
  when the read of the enabled settings raises, the operation raises.
\<close>

theorem search_aliases_union_counterexample:
  "map (\<lambda>s. (fst s, src_search_aliases (snd s) ''x'' ''alice'')) (sources alias_example)
     = [(''A'', Inr (VSet {AStr ''foo'', AStr ''Foo'', AStr ''''})),
        (''B'', Inr (VSet {AStr ''bar''}))]
   \<and> fst (search_aliases_from_enabled_sources alias_example ''x'' ''alice'')
       = Inr {AStr ''foo'', AStr ''Foo''}
   \<and> fst (search_aliases_from_enabled_sources alias_example ''x'' ''alice'')
       \<noteq> Inr {AStr ''foo'', AStr ''Foo'', AStr ''''}
   \<and> fst (search_aliases_from_enabled_sources session_down ''x'' ''alice'')
       = Inl (OtherException ''database is locked'')"
proof -
  have "search_aliases_from_enabled_sources alias_example ''x'' ''alice''
          = (Inr {AStr ''foo'', AStr ''Foo''}, [Call ''A'' OpSearchAliases])"
    by (auto simp: search_aliases_from_enabled_sources_def get_enabled_aux_metadata_sources_def
        alias_example_def fixed_provider_def gather_def Let_def)
  moreover have "search_aliases_from_enabled_sources session_down ''x'' ''alice''
          = (Inl (OtherException ''database is locked''), [])"
    by (simp add: search_aliases_from_enabled_sources_def get_enabled_aux_metadata_sources_def
        session_down_def alias_example_def)
  moreover have "{AStr ''foo'', AStr ''Foo''} \<noteq> {AStr ''foo'', AStr ''Foo'', AStr ''''}"
    by auto
  ultimately show ?thesis
    by (simp add: alias_example_def fixed_provider_def)
qed

text \<open>
  Claim C1, amended. For every keyword and caller, when the read of the enabled settings
  succeeds, \<open>search_aliases_from_enabled_sources\<close> does not raise and returns the union of
  the alias sets returned by the calls of the enabled and loaded providers, without its
  falsy entries; a call that raises (or returns no set) contributes nothing, and when no
  enabled provider's call returns a set the result is the empty set.
\<close>

theorem search_aliases_union_of_successes:
  assumes "session_factory m = Inr rows"
  shows "fst (search_aliases_from_enabled_sources m keyword usr)
           = Inr (Set.filter truthy
                   (\<Union> {S. \<exists>s \<in> set rows. \<exists>inst. isAuxSearchEnabled s = Some True
                          \<and> map_of (sources m) (providerName s) = Some inst
                          \<and> src_search_aliases inst keyword usr = Inr (VSet S)}))
       \<and> ((\<forall>s \<in> set rows. \<forall>inst. isAuxSearchEnabled s = Some True
                 \<and> map_of (sources m) (providerName s) = Some inst
               \<longrightarrow> (\<forall>S. src_search_aliases inst keyword usr \<noteq> Inr (VSet S)))
            \<longrightarrow> fst (search_aliases_from_enabled_sources m keyword usr) = Inr {})"
proof -
  define enabled where "enabled = filter (\<lambda>s. isAuxSearchEnabled s = Some True) rows"
  define U where "U = \<Union> {S. \<exists>s \<in> set rows. \<exists>inst. isAuxSearchEnabled s = Some True
                          \<and> map_of (sources m) (providerName s) = Some inst
                          \<and> src_search_aliases inst keyword usr = Inr (VSet S)}"
  obtain tasks warnings where tasks: "alias_tasks (sources m) keyword usr enabled = (tasks, warnings)"
    by (cases "alias_tasks (sources m) keyword usr enabled")
  obtain all_aliases errors where
    merge: "merge_aliases (gather (map snd tasks)) {} = (all_aliases, errors)"
    by (cases "merge_aliases (gather (map snd tasks)) {}")
  have sets: "{S. \<exists>s \<in> set enabled. \<exists>inst. map_of (sources m) (providerName s) = Some inst
                   \<and> src_search_aliases inst keyword usr = Inr (VSet S)}
              = {S. \<exists>s \<in> set rows. \<exists>inst. isAuxSearchEnabled s = Some True
                          \<and> map_of (sources m) (providerName s) = Some inst
                          \<and> src_search_aliases inst keyword usr = Inr (VSet S)}"
    unfolding enabled_def by auto
  have "fst (merge_aliases (gather (map snd (fst (alias_tasks (sources m) keyword usr enabled)))) {})
          = U"
    unfolding U_def by (simp only: merged_successes sets)
  then have all_aliases: "all_aliases = U"
    by (simp add: tasks merge)
  have session: "get_enabled_aux_metadata_sources (session_factory m) = Inr enabled"
    by (simp add: get_enabled_aux_metadata_sources_def assms enabled_def)
  have result: "fst (search_aliases_from_enabled_sources m keyword usr) = Inr (Set.filter truthy U)"
  proof (cases "tasks = []")
    case True
    with merge all_aliases have "U = {}"
      by (simp add: gather_def)
    with True show ?thesis
      by (simp add: search_aliases_from_enabled_sources_def session tasks)
  next
    case False
    then show ?thesis
      by (simp add: search_aliases_from_enabled_sources_def session tasks merge all_aliases Let_def)
  qed
  have none: "U = {}"
    if "\<forall>s \<in> set rows. \<forall>inst. isAuxSearchEnabled s = Some True
                 \<and> map_of (sources m) (providerName s) = Some inst
               \<longrightarrow> (\<forall>S. src_search_aliases inst keyword usr \<noteq> Inr (VSet S))"
    using that unfolding U_def by blast
  from result none show ?thesis
    unfolding U_def by simp
qed

theorem search_aliases_union_of_successes_witness:
  "session_factory partial_failure
     = Inr [\<lparr>providerName = ''A'', isAuxSearchEnabled = Some True,
              displayOrder = Some 1, useProxy = Some False, use_proxy = None\<rparr>,
            \<lparr>providerName = ''B'', isAuxSearchEnabled = Some True,
              displayOrder = Some 0, useProxy = Some False, use_proxy = None\<rparr>]
   \<and> fst (search_aliases_from_enabled_sources partial_failure ''x'' ''alice'')
       = Inr {AStr ''bar''}
   \<and> Set.filter truthy
        (\<Union> {S. \<exists>s \<in> set [\<lparr>providerName = ''A'', isAuxSearchEnabled = Some True,
                               displayOrder = Some 1, useProxy = Some False, use_proxy = None\<rparr>,
                             \<lparr>providerName = ''B'', isAuxSearchEnabled = Some True,
                               displayOrder = Some 0, useProxy = Some False, use_proxy = None\<rparr>].
                \<exists>inst. isAuxSearchEnabled s = Some True
                   \<and> map_of (sources partial_failure) (providerName s) = Some inst
                   \<and> src_search_aliases inst ''x'' ''alice'' = Inr (VSet S)})
       = {AStr ''bar''}"
proof -
  have h: "session_factory partial_failure
     = Inr [\<lparr>providerName = ''A'', isAuxSearchEnabled = Some True,
              displayOrder = Some 1, useProxy = Some False, use_proxy = None\<rparr>,
            \<lparr>providerName = ''B'', isAuxSearchEnabled = Some True,
              displayOrder = Some 0, useProxy = Some False, use_proxy = None\<rparr>]"
    by (simp add: partial_failure_def)
  have v: "fst (search_aliases_from_enabled_sources partial_failure ''x'' ''alice'')
       = Inr {AStr ''bar''}"
    by (auto simp: search_aliases_from_enabled_sources_def get_enabled_aux_metadata_sources_def
        partial_failure_def fixed_provider_def gather_def Let_def)
  show ?thesis
    using h v search_aliases_union_of_successes [OF h, of "''x''" "''alice''"]
    by simp
qed

text \<open>
  Claim C6. With A enabled and B disabled in the settings, both loaded, and A's
  \<open>search_aliases\<close> returning the set of "foo", "Foo" and the empty string for "x", the
  result is exactly the set of "foo" and "Foo", and the only provider operation called is
  A's \<open>search_aliases\<close>. For every manager, keyword and caller, no falsy entry (the
  empty string, \<open>None\<close>) is in a returned set.
\<close>

theorem search_aliases_scenario_no_blank:
  "(sources m = [(a, pa), (b, pb)] \<and> session_factory m = Inr [sa, sb]
      \<and> providerName sa = a \<and> isAuxSearchEnabled sa = Some True
      \<and> providerName sb = b \<and> isAuxSearchEnabled sb = Some False
      \<and> src_search_aliases pa ''x'' usr = Inr (VSet {AStr ''foo'', AStr ''Foo'', AStr ''''})
    \<longrightarrow> search_aliases_from_enabled_sources m ''x'' usr
          = (Inr {AStr ''foo'', AStr ''Foo''}, [Call a OpSearchAliases]))
   \<and> (\<forall>S. fst (search_aliases_from_enabled_sources m keyword usr) = Inr S
          \<longrightarrow> AStr '''' \<notin> S \<and> ANone \<notin> S \<and> (\<forall>x \<in> S. truthy x))"
proof (intro conjI impI allI)
  assume "sources m = [(a, pa), (b, pb)] \<and> session_factory m = Inr [sa, sb]
      \<and> providerName sa = a \<and> isAuxSearchEnabled sa = Some True
      \<and> providerName sb = b \<and> isAuxSearchEnabled sb = Some False
      \<and> src_search_aliases pa ''x'' usr = Inr (VSet {AStr ''foo'', AStr ''Foo'', AStr ''''})"
  then show "search_aliases_from_enabled_sources m ''x'' usr
          = (Inr {AStr ''foo'', AStr ''Foo''}, [Call a OpSearchAliases])"
    by (auto simp: search_aliases_from_enabled_sources_def get_enabled_aux_metadata_sources_def
        gather_def Let_def)
next
  fix S
  assume result: "fst (search_aliases_from_enabled_sources m keyword usr) = Inr S"
  have "\<forall>x \<in> S. truthy x"
    using result
    by (auto simp: search_aliases_from_enabled_sources_def Let_def
        split: sum.splits prod.splits if_splits)
  then show "AStr '''' \<notin> S" "ANone \<notin> S" "\<forall>x \<in> S. truthy x"
    by auto
qed

theorem search_aliases_scenario_no_blank_witness:
  "search_aliases_from_enabled_sources alias_example ''x'' ''alice''
     = (Inr {AStr ''foo'', AStr ''Foo''}, [Call ''A'' OpSearchAliases])
   \<and> AStr '''' \<notin> {AStr ''foo'', AStr ''Foo''}
   \<and> Call ''B'' OpSearchAliases
       \<notin> set (snd (search_aliases_from_enabled_sources alias_example ''x'' ''alice''))"
  using search_aliases_scenario_no_blank
    [of alias_example "''A''" "snd (hd (sources alias_example))"
        "''B''" "snd (hd (tl (sources alias_example)))"
        "\<lparr>providerName = ''A'', isAuxSearchEnabled = Some True,
           displayOrder = Some 1, useProxy = Some False, use_proxy = None\<rparr>"
        "\<lparr>providerName = ''B'', isAuxSearchEnabled = Some False,
           displayOrder = Some 0, useProxy = Some False, use_proxy = None\<rparr>"
        "''alice''"]
  by (simp add: alias_example_def fixed_provider_def)

section \<open>Properties of the TVDB provider\<close>

lemma bindE_simps [simp]:
  "bindE (Inl e) f = Inl e"
  "bindE (Inr x) f = f x"
  by (simp_all add: bindE_def)

lemma create_client_configured:
  "create_client env_not_json
     = Inr \<lparr>base_url = ''https://api4.thetvdb.com/v4'', authorization = ''Bearer secret'',
            timeout_seconds = 20, follow_redirects = True, proxy = None\<rparr>"
  by (simp add: create_client_def env_not_json_def config_get_def lower_def Let_def)

lemma create_client_unconfigured:
  "config_get (tvdb_config env) ''tvdbApiKey'' '''' = [] \<Longrightarrow>
     create_client env = Inl (ValueError ''TVDB API Key not configured.'')"
  by (simp add: create_client_def)

lemma create_client_same_configuration:
  "tvdb_config env = tvdb_config env_not_json \<Longrightarrow> tvdb_session env = tvdb_session env_not_json
     \<Longrightarrow> create_client env = create_client env_not_json"
  by (simp add: create_client_def Let_def)

subsection \<open>execute_action through the manager\<close>

text \<open>
  Claim C5 (the code departs from it). With the TVDB provider loaded under "tvdb", for
  every action name and payload the manager's \<open>execute_action\<close> does call the provider,
  but the call fails while its arguments are bound, with \<open>TypeError\<close>: the manager
  passes the keyword \<open>request\<close> and the provider's \<open>execute_action\<close> has no such
  parameter. The body that raises \<open>NotImplementedError\<close> is never reached.
\<close>

theorem tvdb_execute_action_type_error:
  "map_of (sources m) ''tvdb'' = Some (TvdbMetadataSource env) \<Longrightarrow>
     execute_action m ''tvdb'' action_name payload usr req
       = (Inl (TypeError ''got an unexpected keyword argument request''),
          [Call ''tvdb'' OpExecuteAction])"
  by (simp add: execute_action_def TvdbMetadataSource_def tvdb_execute_action_def
      bind_arguments_def)

theorem tvdb_execute_action_type_error_witness:
  "map_of (sources tvdb_only) ''tvdb'' = Some (TvdbMetadataSource env_not_json)
   \<and> execute_action tvdb_only ''tvdb'' ''refresh'' (JObj []) ''alice'' ''req''
       = (Inl (TypeError ''got an unexpected keyword argument request''),
          [Call ''tvdb'' OpExecuteAction])"
proof -
  have h: "map_of (sources tvdb_only) ''tvdb'' = Some (TvdbMetadataSource env_not_json)"
    by (simp add: tvdb_only_def)
  show ?thesis
    using h tvdb_execute_action_type_error [OF h] by simp
qed

text \<open>Called with the three parameters it declares, the provider's \<open>execute_action\<close>
  raises \<open>NotImplementedError\<close>; a provider that declares \<open>request\<close> is reached by the
  manager's call.\<close>

lemma tvdb_execute_action_direct:
  "bind_arguments (params tvdb_execute_action) 3 [] = None
   \<and> (\<exists>msg. impl tvdb_execute_action action_name payload usr req = Inl (NotImplementedError msg))"
  by (simp add: tvdb_execute_action_def bind_arguments_def)

lemma execute_action_reaches_conforming_provider:
  "execute_action custom_loaded ''anidb'' ''refresh'' (JObj []) ''alice'' ''req''
     = (Inr JNull, [Call ''anidb'' OpExecuteAction])"
  by (simp add: execute_action_def custom_loaded_def fixed_provider_def bind_arguments_def)

subsection \<open>search\<close>

text \<open>What the three handlers of \<open>search\<close> do with the exception that ends the body of
  the \<open>try\<close>.\<close>

lemma tvdb_search_handlers:
  "search_try env keyword = Inr results \<Longrightarrow> tvdb_search env keyword usr mediaType = Inr results"
  "search_try env keyword = Inl e \<Longrightarrow> isinstance_ValueError e \<Longrightarrow>
     tvdb_search env keyword usr mediaType = Inl (HTTPException 412 (exn_str e))"
  "search_try env keyword = Inl (HTTPStatusError code url) \<Longrightarrow>
     tvdb_search env keyword usr mediaType = Inl (HTTPException 503 (upstream_error_detail code))"
  "search_try env keyword = Inl e \<Longrightarrow> \<not> isinstance_ValueError e \<Longrightarrow>
     \<not> isinstance_HTTPStatusError e \<Longrightarrow>
     tvdb_search env keyword usr mediaType = Inl (HTTPException 500 internal_error_detail)"
  by (auto simp: tvdb_search_def split: exn.splits)

lemma tvdb_search_total:
  "(\<exists>results. tvdb_search env keyword usr mediaType = Inr results)
   \<or> (\<exists>code detail. code \<in> {412, 503, 500}
         \<and> tvdb_search env keyword usr mediaType = Inl (HTTPException code detail))"
  by (auto simp: tvdb_search_def split: sum.splits exn.splits)

lemma tvdb_search_missing_api_key:
  "config_get (tvdb_config env) ''tvdbApiKey'' '''' = [] \<Longrightarrow>
     tvdb_search env keyword usr mediaType
       = Inl (HTTPException 412 ''TVDB API Key not configured.'')"
  by (simp add: tvdb_search_def search_try_def create_client_unconfigured)

lemma tvdb_search_upstream_status:
  assumes "create_client env = Inr client"
    and "http_get env client ''/search'' [(''query'', keyword)] = Inr response"
    and "\<not> (200 \<le> status_code response \<and> status_code response < 300)"
  shows "tvdb_search env keyword usr mediaType
           = Inl (HTTPException 503 (upstream_error_detail (status_code response)))"
proof -
  from assms(3) have "raise_for_status response
      = Inl (HTTPStatusError (status_code response) (request_url response))"
    by (auto simp: raise_for_status_def)
  with assms(1,2) show ?thesis
    by (simp add: tvdb_search_def search_try_def)
qed

lemma tvdb_search_transport_failure:
  "tvdb_search env_offline ''x'' ''alice'' None = Inl (HTTPException 500 internal_error_detail)"
  by (simp add: tvdb_search_def search_try_def env_offline_def
      create_client_same_configuration create_client_configured)

lemma tvdb_search_unauthorized:
  "tvdb_search (env_status 401) ''x'' ''alice'' None
     = Inl (HTTPException 503 (upstream_error_detail 401))"
  by (simp add: tvdb_search_def search_try_def env_status_def raise_for_status_def
      create_client_same_configuration create_client_configured)

lemma show_nat_81189: "show_nat 81189 = ''81189''"
  by (simp add: show_nat.simps digit_char_def)

lemma tvdb_search_series_only:
  "tvdb_search (env_answering search_body) ''breaking'' ''alice'' None
     = Inr [\<lparr>resp_id = JStr ''81189'', resp_tvdbId = JStr ''81189'',
             resp_title = JStr ''Breaking Bad'', resp_imageUrl = JNull,
             resp_details = JStr ''Year: 2008'', resp_imdbId = JNull\<rparr>]"
  by (simp add: tvdb_search_def search_try_def env_answering_def raise_for_status_def
      create_client_same_configuration create_client_configured search_body_def json_get_def
      json_getitem_def MetadataDetailsResponse_def py_str_def)
     (simp add: env_not_json_def)

text \<open>
  Claim C7 (the code departs from it). The TVDB instance has an API key and its upstream
  answers 200 with a body that is not JSON, so that \<open>response.json()\<close> raises
  \<open>json.JSONDecodeError\<close>. This is neither a missing key nor an error status, and
  \<open>search\<close> surfaces it with status 412, not 500: \<open>JSONDecodeError\<close> is a
  \<open>ValueError\<close>, and the first handler takes it.
\<close>

theorem tvdb_search_not_json_412:
  "tvdb_search env_not_json ''x'' ''alice'' None
     = Inl (HTTPException 412 ''Expecting value: line 1 column 1 (char 0)'')"
  by (simp add: tvdb_search_def search_try_def create_client_configured raise_for_status_def)
     (simp add: env_not_json_def)

subsection \<open>get_details\<close>

lemma tvdb_get_details_found:
  "tvdb_get_details (env_answering details_body) ''81189'' ''alice'' None
     = Inr (Some \<lparr>resp_id = JStr ''81189'', resp_tvdbId = JStr ''81189'',
                   resp_title = JStr ''Breaking Bad'', resp_imageUrl = JNull,
                   resp_details = JNull, resp_imdbId = JStr ''tt0903747''\<rparr>)"
  by (simp add: tvdb_get_details_def get_details_try_def env_answering_def raise_for_status_def
      create_client_same_configuration create_client_configured details_body_def json_get_def
      json_getitem_def MetadataDetailsResponse_def imdb_id_of_def py_str_def show_int_def
      show_nat_81189)
     (simp add: env_not_json_def py_str_def show_int_def show_nat_81189)

text \<open>
  Claim C10. For every item id, caller and media type, \<open>get_details\<close> of the TVDB
  provider returns and never raises. It returns \<open>None\<close> when the upstream answers 404,
  and also whenever the body of its \<open>try\<close> ends with an exception: a missing API key, a
  failure of the transport, an error status other than 404, a body that is not JSON, or
  any other exception. The caller sees the same \<open>None\<close> for absence and for failure.
\<close>

theorem tvdb_get_details_never_raises:
  "(\<exists>result. tvdb_get_details env item_id usr mediaType = Inr result)
   \<and> (\<forall>client response. create_client env = Inr client
          \<and> http_get env client (''/series/'' @ item_id @ ''/extended'') [] = Inr response
          \<and> status_code response = 404
        \<longrightarrow> tvdb_get_details env item_id usr mediaType = Inr None)
   \<and> (\<forall>e. get_details_try env item_id = Inl e
        \<longrightarrow> tvdb_get_details env item_id usr mediaType = Inr None)
   \<and> (config_get (tvdb_config env) ''tvdbApiKey'' '''' = []
        \<longrightarrow> tvdb_get_details env item_id usr mediaType = Inr None)
   \<and> (\<forall>client e. create_client env = Inr client
          \<and> http_get env client (''/series/'' @ item_id @ ''/extended'') [] = Inl e
        \<longrightarrow> tvdb_get_details env item_id usr mediaType = Inr None)
   \<and> (\<forall>client response. create_client env = Inr client
          \<and> http_get env client (''/series/'' @ item_id @ ''/extended'') [] = Inr response
          \<and> \<not> (200 \<le> status_code response \<and> status_code response < 300)
        \<longrightarrow> tvdb_get_details env item_id usr mediaType = Inr None)
   \<and> (\<forall>client response e. create_client env = Inr client
          \<and> http_get env client (''/series/'' @ item_id @ ''/extended'') [] = Inr response
          \<and> status_code response = 200 \<and> json_body response = Inl e
        \<longrightarrow> tvdb_get_details env item_id usr mediaType = Inr None)"
proof (intro conjI allI impI)
  show "\<exists>result. tvdb_get_details env item_id usr mediaType = Inr result"
    by (cases "get_details_try env item_id") (simp_all add: tvdb_get_details_def)
next
  fix client response
  assume "create_client env = Inr client
          \<and> http_get env client (''/series/'' @ item_id @ ''/extended'') [] = Inr response
          \<and> status_code response = 404"
  then show "tvdb_get_details env item_id usr mediaType = Inr None"
    by (simp add: tvdb_get_details_def get_details_try_def)
next
  fix e
  assume "get_details_try env item_id = Inl e"
  then show "tvdb_get_details env item_id usr mediaType = Inr None"
    by (simp add: tvdb_get_details_def)
next
  assume "config_get (tvdb_config env) ''tvdbApiKey'' '''' = []"
  then show "tvdb_get_details env item_id usr mediaType = Inr None"
    by (simp add: tvdb_get_details_def get_details_try_def create_client_unconfigured)
next
  fix client e
  assume "create_client env = Inr client
          \<and> http_get env client (''/series/'' @ item_id @ ''/extended'') [] = Inl e"
  then show "tvdb_get_details env item_id usr mediaType = Inr None"
    by (simp add: tvdb_get_details_def get_details_try_def)
next
  fix client response
  assume a: "create_client env = Inr client
          \<and> http_get env client (''/series/'' @ item_id @ ''/extended'') [] = Inr response
          \<and> \<not> (200 \<le> status_code response \<and> status_code response < 300)"
  then have "raise_for_status response
      = Inl (HTTPStatusError (status_code response) (request_url response))"
    by (auto simp: raise_for_status_def)
  with a show "tvdb_get_details env item_id usr mediaType = Inr None"
    by (simp add: tvdb_get_details_def get_details_try_def)
next
  fix client response e
  assume "create_client env = Inr client
          \<and> http_get env client (''/series/'' @ item_id @ ''/extended'') [] = Inr response
          \<and> status_code response = 200 \<and> json_body response = Inl e"
  then show "tvdb_get_details env item_id usr mediaType = Inr None"
    by (simp add: tvdb_get_details_def get_details_try_def raise_for_status_def)
qed

theorem tvdb_get_details_never_raises_witness:
  "create_client (env_status 404)
      = Inr \<lparr>base_url = ''https://api4.thetvdb.com/v4'', authorization = ''Bearer secret'',
             timeout_seconds = 20, follow_redirects = True, proxy = None\<rparr>
   \<and> status_code (projr (http_get (env_status 404)
          \<lparr>base_url = ''https://api4.thetvdb.com/v4'', authorization = ''Bearer secret'',
           timeout_seconds = 20, follow_redirects = True, proxy = None\<rparr>
          (''/series/'' @ ''81189'' @ ''/extended'') [])) = 404
   \<and> tvdb_get_details (env_status 404) ''81189'' ''alice'' None = Inr None
   \<and> config_get (tvdb_config env_unconfigured) ''tvdbApiKey'' '''' = []
   \<and> tvdb_get_details env_unconfigured ''81189'' ''alice'' None = Inr None
   \<and> tvdb_get_details env_offline ''81189'' ''alice'' None = Inr None
   \<and> tvdb_get_details env_not_json ''81189'' ''alice'' None = Inr None
   \<and> tvdb_get_details (env_status 500) ''81189'' ''alice'' None = Inr None"
proof -
  have client: "create_client (env_status 404)
      = Inr \<lparr>base_url = ''https://api4.thetvdb.com/v4'', authorization = ''Bearer secret'',
             timeout_seconds = 20, follow_redirects = True, proxy = None\<rparr>"
    by (simp add: create_client_same_configuration create_client_configured env_status_def)
  have key: "config_get (tvdb_config env_unconfigured) ''tvdbApiKey'' '''' = []"
    by (simp add: env_unconfigured_def config_get_def)
  have offline: "get_details_try env_offline ''81189'' = Inl (OtherException ''connection refused'')"
    by (simp add: get_details_try_def env_offline_def
        create_client_same_configuration create_client_configured)
  have not_json: "get_details_try env_not_json ''81189''
      = Inl (JSONDecodeError ''Expecting value: line 1 column 1 (char 0)'')"
    by (simp add: get_details_try_def create_client_configured)
       (simp add: env_not_json_def raise_for_status_def)
  have error_status: "get_details_try (env_status 500) ''81189''
      = Inl (HTTPStatusError 500 ''https://api4.thetvdb.com/v4/series/81189/extended'')"
    by (simp add: get_details_try_def env_status_def raise_for_status_def
        create_client_same_configuration create_client_configured)
  show ?thesis
    using client key offline not_json error_status
      tvdb_get_details_never_raises [of "env_status 404" "''81189''" "''alice''" None]
      tvdb_get_details_never_raises [of env_unconfigured "''81189''" "''alice''" None]
      tvdb_get_details_never_raises [of env_offline "''81189''" "''alice''" None]
      tvdb_get_details_never_raises [of env_not_json "''81189''" "''alice''" None]
      tvdb_get_details_never_raises [of "env_status 500" "''81189''" "''alice''" None]
    by (simp add: env_status_def)
qed

end
